theory Spec2Isabelle
  imports Complex_Main "HOL-Library.Word"
begin

section \<open>JavaScript values\<close>

text \<open>
  A JavaScript string is a sequence of 16-bit code units, and \<open>===\<close> on two strings
  compares the sequences. \<open>str\<close> writes an ASCII literal of the source.
\<close>

type_synonym jsstring = "16 word list"

definition str :: "string \<Rightarrow> jsstring" where
  "str s = map of_char s"

text \<open>
  Numbers are IEEE doubles: every finite one is a rational, the class does no arithmetic
  on them and only tests them for truthiness, where \<open>-0\<close> behaves as \<open>0\<close>.
\<close>

datatype jsnum = NaN | PosInfinity | NegInfinity | Finite rat

text \<open>
  The values that configuration and block data can hold: \<open>undefined\<close> and what
  JSON can express. An object is its list of own properties; the first binding of a key
  is the one read.
\<close>

datatype jsval =
    JUndefined
  | JNull
  | JBool bool
  | JNum jsnum
  | JStr jsstring
  | JArr "jsval list"
  | JObj "(jsstring \<times> jsval) list"

abbreviation JS :: "string \<Rightarrow> jsval" where
  "JS s \<equiv> JStr (str s)"

datatype error = TypeError

text \<open>The \<open>typeof\<close> operator; \<open>typeof null\<close> is \<open>object\<close>.\<close>

fun typeof :: "jsval \<Rightarrow> string" where
  "typeof JUndefined = ''undefined''"
| "typeof JNull = ''object''"
| "typeof (JBool b) = ''boolean''"
| "typeof (JNum n) = ''number''"
| "typeof (JStr s) = ''string''"
| "typeof (JArr xs) = ''object''"
| "typeof (JObj kvs) = ''object''"

text \<open>\<open>ToBoolean\<close>, as used by \<open>if\<close>, \<open>!\<close>, \<open>||\<close>, \<open>?:\<close> and \<open>Boolean(x)\<close>.\<close>

fun truthy :: "jsval \<Rightarrow> bool" where
  "truthy JUndefined = False"
| "truthy JNull = False"
| "truthy (JBool b) = b"
| "truthy (JNum n) = (n \<noteq> NaN \<and> n \<noteq> Finite 0)"
| "truthy (JStr s) = (s \<noteq> [])"
| "truthy (JArr xs) = True"
| "truthy (JObj kvs) = True"

text \<open>The operator \<open>a || b\<close> on values (where \<open>b\<close> has no effect of its own).\<close>

definition or_js :: "jsval \<Rightarrow> jsval \<Rightarrow> jsval" where
  "or_js a b = (if truthy a then a else b)"

section \<open>Effects: exceptions and console warnings\<close>

text \<open>
  An operation either returns a value (\<open>Inr\<close>) or throws (\<open>Inl\<close>), and on the way
  it may have written messages with \<open>console.warn\<close>; they are the second component,
  in the order written.
\<close>

type_synonym 'a eff = "(error + 'a) \<times> jsstring list"

definition ret :: "'a \<Rightarrow> 'a eff" where
  "ret x = (Inr x, [])"

definition throw :: "error \<Rightarrow> 'a eff" where
  "throw e = (Inl e, [])"

definition warn :: "jsstring \<Rightarrow> unit eff" where
  "warn m = (Inr (), [m])"

definition bind :: "'a eff \<Rightarrow> ('a \<Rightarrow> 'b eff) \<Rightarrow> 'b eff" where
  "bind m f =
     (case m of
        (Inl e, w) \<Rightarrow> (Inl e, w)
      | (Inr x, w) \<Rightarrow> (case f x of (r, w') \<Rightarrow> (r, w @ w')))"

text \<open>\<open>xs.map(f)\<close> with a callback that has effects: left to right, stopping at a throw.\<close>

fun mapM :: "('a \<Rightarrow> 'b eff) \<Rightarrow> 'a list \<Rightarrow> 'b list eff" where
  "mapM f [] = ret []"
| "mapM f (x # xs) = bind (f x) (\<lambda>y. bind (mapM f xs) (\<lambda>ys. ret (y # ys)))"

definition returns :: "'a eff \<Rightarrow> bool" where
  "returns m = (case fst m of Inl e \<Rightarrow> False | Inr x \<Rightarrow> True)"

section \<open>Built-in operations the class calls\<close>

text \<open>
  Reading a property \<open>v.k\<close>. On \<open>undefined\<close> and \<open>null\<close> it throws a TypeError. The
  names this class reads (\<open>text\<close>, \<open>align\<close>, \<open>innerHTML\<close>) are not defined on the
  prototypes of booleans, numbers, strings and arrays, so there the read gives
  \<open>undefined\<close>.
\<close>

fun get :: "jsval \<Rightarrow> jsstring \<Rightarrow> jsval eff" where
  "get JUndefined k = throw TypeError"
| "get JNull k = throw TypeError"
| "get (JObj kvs) k = ret (case map_of kvs k of None \<Rightarrow> JUndefined | Some v \<Rightarrow> v)"
| "get v k = ret JUndefined"

text \<open>\<open>String.prototype.includes\<close>: the argument occurs as a contiguous substring.\<close>

fun startsWith :: "jsstring \<Rightarrow> jsstring \<Rightarrow> bool" where
  "startsWith s [] = True"
| "startsWith [] (c # t) = False"
| "startsWith (d # s) (c # t) = (d = c \<and> startsWith s t)"

fun string_includes :: "jsstring \<Rightarrow> jsstring \<Rightarrow> bool" where
  "string_includes [] t = (t = [])"
| "string_includes (c # s) t = (startsWith (c # s) t \<or> string_includes s t)"

text \<open>
  The method call \<open>v.includes(a)\<close> with a string argument \<open>a\<close>. On an array it is
  \<open>Array.prototype.includes\<close>, which compares with SameValueZero: an element matches
  a string exactly when it is that string. On a string it is the substring test. Every
  other value has no callable \<open>includes\<close> (an object of JSON data cannot hold a
  function), so the call throws a TypeError.
\<close>

fun call_includes :: "jsval \<Rightarrow> jsstring \<Rightarrow> bool eff" where
  "call_includes (JArr xs) a = ret (JStr a \<in> set xs)"
| "call_includes (JStr s) a = ret (string_includes s a)"
| "call_includes v a = throw TypeError"

text \<open>The values on which \<open>includes\<close> is a method.\<close>

definition has_includes :: "jsval \<Rightarrow> bool" where
  "has_includes v = (case v of JArr xs \<Rightarrow> True | JStr s \<Rightarrow> True | _ \<Rightarrow> False)"

text \<open>
  The code units that \<open>String.prototype.trim\<close> strips: ECMAScript's WhiteSpace (TAB, VT,
  FF, SP, NBSP, ZWNBSP and the Unicode space separators) and LineTerminator (LF, CR, LS,
  PS). All of them lie in the basic plane, so each is one code unit.
\<close>

definition isWhiteSpace :: "16 word \<Rightarrow> bool" where
  "isWhiteSpace c \<longleftrightarrow>
     c \<in> {0x0009, 0x000B, 0x000C, 0x0020, 0x00A0, 0xFEFF, 0x1680,
          0x2000, 0x2001, 0x2002, 0x2003, 0x2004, 0x2005, 0x2006, 0x2007, 0x2008,
          0x2009, 0x200A, 0x202F, 0x205F, 0x3000,
          0x000A, 0x000D, 0x2028, 0x2029}"

definition trim :: "jsstring \<Rightarrow> jsstring" where
  "trim s = rev (dropWhile isWhiteSpace (rev (dropWhile isWhiteSpace s)))"

text \<open>The method call \<open>v.trim()\<close>: only a string has it.\<close>

fun call_trim :: "jsval \<Rightarrow> jsstring eff" where
  "call_trim (JStr s) = ret (trim s)"
| "call_trim v = throw TypeError"

text \<open>
  \<open>align.charAt(0).toUpperCase() + align.slice(1)\<close>. It is applied to the members of
  \<open>ALIGN_TYPES\<close> only, whose first letters are ASCII lower case; the upper-casing of
  other code units is left out here.
\<close>

definition toUpperCase_ascii :: "16 word \<Rightarrow> 16 word" where
  "toUpperCase_ascii c = (if 0x61 \<le> c \<and> c \<le> 0x7A then c - 0x20 else c)"

definition capitalize :: "jsstring \<Rightarrow> jsstring" where
  "capitalize a = map toUpperCase_ascii (take 1 a) @ drop 1 a"

section \<open>The Paragraph class\<close>

text \<open>
  The constructor stores \<open>config || {}\<close> in \<open>this._config\<close>, so the four properties
  the class reads from it are always readable; an absent one reads \<open>undefined\<close>.
  \<open>this._data\<close> is the object built by \<open>_normalizeData\<close>, with exactly the
  properties \<open>text\<close> and \<open>align\<close>.
\<close>

record config =
  placeholder :: jsval
  preserveBlank :: jsval
  alignTypes :: jsval
  defaultAlignType :: jsval

record block_data =
  "text" :: jsval
  align :: jsval

record Paragraph =
  this_config :: config
  this_data :: block_data

text \<open>
  Reading a property of a value that is neither \<open>undefined\<close> nor \<open>null\<close>, for the
  names this class reads: an own property of an object, \<open>undefined\<close> on anything else.
\<close>

definition read_prop :: "jsval \<Rightarrow> jsstring \<Rightarrow> jsval" where
  "read_prop v k = (case v of JObj kvs \<Rightarrow> (case map_of kvs k of None \<Rightarrow> JUndefined | Some x \<Rightarrow> x)
                       | _ \<Rightarrow> JUndefined)"

text \<open>
  The constructor's \<open>this._config = config || {}\<close>, as the four properties that the
  class reads from it.
\<close>

definition config_of :: "jsval \<Rightarrow> config" where
  "config_of c =
     (let c' = or_js c (JObj []) in
      \<lparr>placeholder = read_prop c' (str ''placeholder''),
       preserveBlank = read_prop c' (str ''preserveBlank''),
       alignTypes = read_prop c' (str ''alignTypes''),
       defaultAlignType = read_prop c' (str ''defaultAlignType'')\<rparr>)"

text \<open>A plain object \<open>{text: .., align: ..}\<close> as a value, to pass it on as raw data.\<close>

definition obj_of :: "block_data \<Rightarrow> jsval" where
  "obj_of d = JObj [(str ''text'', text d), (str ''align'', align d)]"

text \<open>
  The instance for a constructor argument \<open>config\<close> whose \<open>this._data\<close> holds \<open>d\<close>.
\<close>

definition instance_with :: "jsval \<Rightarrow> block_data \<Rightarrow> Paragraph" where
  "instance_with c d = \<lparr>this_config = config_of c, this_data = d\<rparr>"

definition ALIGN_TYPES :: "jsstring list" where
  "ALIGN_TYPES = [str ''left'', str ''center'', str ''right'', str ''justify'']"

definition DEFAULT_ALIGN_TYPE :: jsstring where
  "DEFAULT_ALIGN_TYPE = str ''left''"

text \<open>
  \<open>Array.prototype.filter\<close> with a callback that may throw: the elements are visited
  left to right and the first throw ends the call.
\<close>

fun filterM :: "('a \<Rightarrow> bool eff) \<Rightarrow> 'a list \<Rightarrow> 'a list eff" where
  "filterM f [] = ret []"
| "filterM f (x # xs) =
     bind (f x) (\<lambda>keep. bind (filterM f xs) (\<lambda>ys. ret (if keep then x # ys else ys)))"

definition availableAlignTypes :: "Paragraph \<Rightarrow> jsstring list eff" where
  "availableAlignTypes this =
     (if truthy (alignTypes (this_config this))
      then filterM (\<lambda>align. call_includes (alignTypes (this_config this)) align) ALIGN_TYPES
      else ret ALIGN_TYPES)"

text \<open>
  The text of the warning: the prefix \<open>(U+0E07 ' U+0300 - ' U+0301 ) U+0E07\<close>, then the
  ASCII message.
\<close>

definition invalid_default_warning :: jsstring where
  "invalid_default_warning =
     [0x28, 0x0E07, 0x27, 0x0300, 0x2D, 0x27, 0x0301, 0x29, 0x0E07]
     @ str '' Paragraph Tool: the default align type specified is invalid''"

text \<open>
  \<open>Array.prototype.find\<close> over an array of strings is \<^const>\<open>List.find\<close>, with
  \<open>None\<close> for \<open>undefined\<close>. Where the source tests the result with \<open>if (x)\<close> or
  \<open>!x\<close>, it is truthy when an element was found and is not the empty string.
\<close>

definition userDefaultAlignType :: "Paragraph \<Rightarrow> jsstring eff" where
  "userDefaultAlignType this =
     (if truthy (defaultAlignType (this_config this)) then
        bind (availableAlignTypes this) (\<lambda>available.
          case find (\<lambda>align. JStr align = defaultAlignType (this_config this)) available of
            Some userSpecified \<Rightarrow>
              if userSpecified \<noteq> [] then ret userSpecified
              else bind (warn invalid_default_warning) (\<lambda>_. ret DEFAULT_ALIGN_TYPE)
          | None \<Rightarrow> bind (warn invalid_default_warning) (\<lambda>_. ret DEFAULT_ALIGN_TYPE))
      else ret DEFAULT_ALIGN_TYPE)"

definition userPreserveBlank :: "Paragraph \<Rightarrow> bool" where
  "userPreserveBlank this = truthy (preserveBlank (this_config this))"

definition normalizeData :: "Paragraph \<Rightarrow> jsval \<Rightarrow> block_data eff" where
  "normalizeData this data0 =
     (let data = (if typeof data0 \<noteq> ''object'' then JObj [] else data0) in
      bind (get data (str ''text'')) (\<lambda>t.
      bind (get data (str ''align'')) (\<lambda>a.
      bind (if truthy a then ret a
            else bind (userDefaultAlignType this) (\<lambda>d. ret (JStr d))) (\<lambda>al.
      ret \<lparr>text = or_js t (JStr []), align = al\<rparr>))))"

definition currentAlignType :: "Paragraph \<Rightarrow> jsstring eff" where
  "currentAlignType this =
     bind (availableAlignTypes this) (\<lambda>available.
       case find (\<lambda>a. JStr a = align (this_data this)) available of
         Some alignType \<Rightarrow> if alignType = [] then userDefaultAlignType this else ret alignType
       | None \<Rightarrow> userDefaultAlignType this)"

text \<open>\<open>_setAlignType\<close>: the assignment to \<open>this._data.align\<close> (the CSS classes of the
  element are the host's DOM).\<close>

definition setAlignType :: "Paragraph \<Rightarrow> jsstring \<Rightarrow> Paragraph" where
  "setAlignType this newAlign =
     this\<lparr>this_data := (this_data this)\<lparr>align := JStr newAlign\<rparr>\<rparr>"

definition save :: "Paragraph \<Rightarrow> jsval \<Rightarrow> block_data eff" where
  "save this blockContent =
     bind (get blockContent (str ''innerHTML'')) (\<lambda>html.
     bind (currentAlignType this) (\<lambda>cur.
     ret \<lparr>text = html, align = JStr cur\<rparr>))"

definition validate :: "Paragraph \<Rightarrow> jsval \<Rightarrow> bool eff" where
  "validate this savedData =
     (if \<not> userPreserveBlank this then
        bind (get savedData (str ''text'')) (\<lambda>t.
        bind (call_trim t) (\<lambda>s. ret (s \<noteq> [])))
      else ret True)"

text \<open>
  A menu entry. \<open>onActivate\<close> is the closure \<open>() => this._setAlignType(align)\<close>,
  represented by the \<open>align\<close> it captured. The icon function comes from
  \<open>./icons/alignment.js\<close> and \<open>t\<close> from the host's \<open>api.i18n\<close>; both are parameters.
\<close>

record menu_item =
  icon :: jsstring
  label :: jsstring
  onActivate :: jsstring
  isActive :: bool
  closeOnActivate :: bool
  toggle :: jsstring

definition renderSettings ::
  "(jsstring \<Rightarrow> jsstring) \<Rightarrow> (jsstring \<Rightarrow> jsstring) \<Rightarrow> Paragraph \<Rightarrow> menu_item list eff" where
  "renderSettings getAlignmentIcon t this =
     mapM (\<lambda>align.
       bind (currentAlignType this) (\<lambda>cur.
       ret \<lparr>icon = getAlignmentIcon align,
            label = t (capitalize align),
            onActivate = align,
            isActive = (align = cur),
            closeOnActivate = True,
            toggle = str ''align''\<rparr>)) ALIGN_TYPES"

text \<open>
  The object literal that the callback of \<open>renderSettings\<close> builds for the alignment
  type \<open>a\<close> when the current alignment is \<open>cur\<close>.
\<close>

definition menu_item_for ::
  "(jsstring \<Rightarrow> jsstring) \<Rightarrow> (jsstring \<Rightarrow> jsstring) \<Rightarrow> jsstring \<Rightarrow> jsstring \<Rightarrow> menu_item" where
  "menu_item_for getAlignmentIcon t cur a =
     \<lparr>icon = getAlignmentIcon a, label = t (capitalize a), onActivate = a,
      isActive = (a = cur), closeOnActivate = True, toggle = str ''align''\<rparr>"

section \<open>Basic facts\<close>

lemma bind_ret [simp]: "bind (ret x) f = f x"
  by (simp add: bind_def ret_def split: prod.splits)

lemma bind_throw [simp]: "bind (throw e) f = throw e"
  by (simp add: bind_def throw_def)

lemma bind_Inl [simp]: "bind (Inl e, w) f = (Inl e, w)"
  by (simp add: bind_def)

lemma bind_Inr: "bind (Inr x, w) f = (fst (f x), w @ snd (f x))"
  by (simp add: bind_def split: prod.splits)

lemma ret_neq_throw [simp]: "ret x \<noteq> throw e" "throw e \<noteq> ret x"
  by (simp_all add: ret_def throw_def)

lemma ret_inject [simp]: "ret x = ret y \<longleftrightarrow> x = y"
  by (simp add: ret_def)

lemma returns_simps [simp]:
  "returns (ret x)" "\<not> returns (throw e)" "returns (Inr x, w)" "\<not> returns (Inl e, w)"
  by (simp_all add: returns_def ret_def throw_def)

lemma filterM_pure: "(\<And>x. f x = ret (P x)) \<Longrightarrow> filterM f xs = ret (filter P xs)"
  by (induction xs) simp_all

lemma filterM_throw: "xs \<noteq> [] \<Longrightarrow> (\<And>x. f x = throw e) \<Longrightarrow> filterM f xs = throw e"
  by (cases xs) simp_all

lemma find_eq_Some: "a \<in> set xs \<Longrightarrow> find (\<lambda>x. x = a) xs = Some a"
  by (induction xs) auto

lemma find_eq_JStr_None: "v \<notin> JStr ` set xs \<Longrightarrow> find (\<lambda>x. JStr x = v) xs = None"
  by (induction xs) auto

lemma ALIGN_TYPES_nonempty: "ALIGN_TYPES \<noteq> []"
  by (simp add: ALIGN_TYPES_def)

lemma ALIGN_TYPES_no_empty_string: "a \<in> set ALIGN_TYPES \<Longrightarrow> a \<noteq> []"
  by (auto simp: ALIGN_TYPES_def str_def)

lemma ALIGN_TYPES_distinct: "distinct ALIGN_TYPES"
  by (simp add: ALIGN_TYPES_def str_def)

lemma DEFAULT_in_ALIGN_TYPES: "DEFAULT_ALIGN_TYPE \<in> set ALIGN_TYPES"
  by (simp add: ALIGN_TYPES_def DEFAULT_ALIGN_TYPE_def)

subsection \<open>The four shapes of \<open>alignTypes\<close>\<close>

lemma available_falsy:
  "\<not> truthy (alignTypes (this_config this)) \<Longrightarrow> availableAlignTypes this = ret ALIGN_TYPES"
  by (simp add: availableAlignTypes_def)

lemma available_array:
  "alignTypes (this_config this) = JArr xs \<Longrightarrow>
   availableAlignTypes this = ret (filter (\<lambda>a. JStr a \<in> set xs) ALIGN_TYPES)"
  by (simp add: availableAlignTypes_def filterM_pure [where P = "\<lambda>a. JStr a \<in> set xs"])

lemma available_string:
  "alignTypes (this_config this) = JStr s \<Longrightarrow> s \<noteq> [] \<Longrightarrow>
   availableAlignTypes this = ret (filter (string_includes s) ALIGN_TYPES)"
  by (simp add: availableAlignTypes_def filterM_pure [where P = "string_includes s"])

lemma available_other:
  "truthy (alignTypes (this_config this)) \<Longrightarrow> \<not> has_includes (alignTypes (this_config this)) \<Longrightarrow>
   availableAlignTypes this = throw TypeError"
  by (cases "alignTypes (this_config this)")
     (simp_all add: availableAlignTypes_def has_includes_def filterM_throw ALIGN_TYPES_nonempty)

lemma available_cases:
  obtains (all) "availableAlignTypes this = ret ALIGN_TYPES"
  | (some) P where "availableAlignTypes this = ret (filter P ALIGN_TYPES)"
  | (throws) "availableAlignTypes this = throw TypeError"
proof (cases "truthy (alignTypes (this_config this))")
  case False
  then show ?thesis using available_falsy all by blast
next
  case True
  show ?thesis
  proof (cases "alignTypes (this_config this)")
    case (JArr xs) then show ?thesis using available_array some by blast
  next
    case (JStr s) then show ?thesis using available_string True some by auto
  qed (use True available_other throws in \<open>simp_all add: has_includes_def\<close>)
qed

lemma available_subset:
  assumes "availableAlignTypes this = ret allowed"
  shows "set allowed \<subseteq> set ALIGN_TYPES"
  using assms by (cases this rule: available_cases) auto

lemma available_returns_iff:
  "returns (availableAlignTypes this) \<longleftrightarrow>
   \<not> truthy (alignTypes (this_config this)) \<or> has_includes (alignTypes (this_config this))"
proof (cases "truthy (alignTypes (this_config this))")
  case False
  then show ?thesis by (simp add: available_falsy)
next
  case True
  show ?thesis
  proof (cases "has_includes (alignTypes (this_config this))")
    case False
    with True show ?thesis by (simp add: available_other)
  next
    case yes: True
    then show ?thesis using True
      by (cases "alignTypes (this_config this)")
         (simp_all add: has_includes_def available_array available_string)
  qed
qed

lemma config_of_simps:
  "alignTypes (config_of c) = read_prop (or_js c (JObj [])) (str ''alignTypes'')"
  "defaultAlignType (config_of c) = read_prop (or_js c (JObj [])) (str ''defaultAlignType'')"
  "preserveBlank (config_of c) = read_prop (or_js c (JObj [])) (str ''preserveBlank'')"
  "placeholder (config_of c) = read_prop (or_js c (JObj [])) (str ''placeholder'')"
  by (simp_all add: config_of_def Let_def)

subsection \<open>The resolved default and the current alignment\<close>

lemma warn_then_ret: "bind (warn m) (\<lambda>_. ret x) = (Inr x, [m])"
  by (simp add: bind_def warn_def ret_def)

lemma userDefault_absent:
  "\<not> truthy (defaultAlignType (this_config this)) \<Longrightarrow>
   userDefaultAlignType this = ret DEFAULT_ALIGN_TYPE"
  by (simp add: userDefaultAlignType_def)

lemma userDefault_member:
  assumes "availableAlignTypes this = ret allowed"
    and "defaultAlignType (this_config this) = JStr a" and "a \<in> set allowed"
  shows "userDefaultAlignType this = ret a"
proof -
  have "a \<noteq> []"
    using assms available_subset ALIGN_TYPES_no_empty_string by blast
  then show ?thesis
    using assms by (simp add: userDefaultAlignType_def find_eq_Some)
qed

lemma userDefault_invalid:
  assumes "availableAlignTypes this = ret allowed"
    and "truthy (defaultAlignType (this_config this))"
    and "defaultAlignType (this_config this) \<notin> JStr ` set allowed"
  shows "userDefaultAlignType this = (Inr DEFAULT_ALIGN_TYPE, [invalid_default_warning])"
  using assms by (simp add: userDefaultAlignType_def find_eq_JStr_None warn_then_ret)

lemma current_member:
  assumes "availableAlignTypes this = ret allowed"
    and "align (this_data this) = JStr a" and "a \<in> set allowed"
  shows "currentAlignType this = ret a"
proof -
  have "a \<noteq> []"
    using assms available_subset ALIGN_TYPES_no_empty_string by blast
  then show ?thesis
    using assms by (simp add: currentAlignType_def find_eq_Some)
qed

lemma current_fallback:
  assumes "availableAlignTypes this = ret allowed"
    and "align (this_data this) \<notin> JStr ` set allowed"
  shows "currentAlignType this = userDefaultAlignType this"
  using assms by (simp add: currentAlignType_def find_eq_JStr_None)

lemma userDefault_result:
  assumes "availableAlignTypes this = ret allowed"
  obtains d w where "userDefaultAlignType this = (Inr d, w)"
    and "d \<in> set allowed \<or> d = DEFAULT_ALIGN_TYPE"
proof (cases "truthy (defaultAlignType (this_config this))")
  case False
  then show ?thesis using that userDefault_absent [of this] by (simp add: ret_def)
next
  case True
  show ?thesis
  proof (cases "defaultAlignType (this_config this) \<in> JStr ` set allowed")
    case True
    then obtain a where "defaultAlignType (this_config this) = JStr a" "a \<in> set allowed"
      by auto
    then show ?thesis using that userDefault_member [OF assms] by (simp add: ret_def)
  next
    case False
    then show ?thesis using that userDefault_invalid [OF assms True] by simp
  qed
qed

lemma current_result:
  assumes "availableAlignTypes this = ret allowed"
  obtains c w where "currentAlignType this = (Inr c, w)"
    and "c \<in> set allowed \<or> c = DEFAULT_ALIGN_TYPE"
proof (cases "align (this_data this) \<in> JStr ` set allowed")
  case True
  then obtain a where "align (this_data this) = JStr a" "a \<in> set allowed"
    by auto
  then show ?thesis using that current_member [OF assms] by (simp add: ret_def)
next
  case False
  then show ?thesis
    using that current_fallback [OF assms] userDefault_result [OF assms] by metis
qed

subsection \<open>The settings menu\<close>

lemma mapM_uniform:
  "(\<And>x. f x = (Inr (g x), w)) \<Longrightarrow>
   mapM f xs = (Inr (map g xs), concat (map (\<lambda>_. w) xs))"
  by (induction xs) (simp_all add: bind_Inr ret_def)

lemma distinct_count_one:
  "distinct xs \<Longrightarrow> c \<in> set xs \<Longrightarrow> length (filter (\<lambda>a. a = c) xs) = 1"
  by (induction xs) (auto simp: filter_empty_conv)

lemma renderSettings_returns:
  assumes "currentAlignType this = (Inr cur, w)"
  shows "renderSettings getAlignmentIcon t this =
     (Inr (map (menu_item_for getAlignmentIcon t cur) ALIGN_TYPES), w @ w @ w @ w)"
proof -
  have "renderSettings getAlignmentIcon t this =
      (Inr (map (menu_item_for getAlignmentIcon t cur) ALIGN_TYPES),
       concat (map (\<lambda>_. w) ALIGN_TYPES))"
    unfolding renderSettings_def
    by (rule mapM_uniform) (simp add: assms bind_Inr ret_def menu_item_for_def)
  then show ?thesis by (simp add: ALIGN_TYPES_def)
qed

lemma one_active:
  assumes "cur \<in> set ALIGN_TYPES"
  shows "length (filter isActive (map (menu_item_for getAlignmentIcon t cur) ALIGN_TYPES)) = 1"
proof -
  have "filter isActive (map (menu_item_for getAlignmentIcon t cur) ALIGN_TYPES)
      = map (menu_item_for getAlignmentIcon t cur) (filter (\<lambda>a. a = cur) ALIGN_TYPES)"
    by (simp add: filter_map comp_def menu_item_for_def)
  moreover have "length (filter (\<lambda>a. a = cur) ALIGN_TYPES) = 1"
    using assms ALIGN_TYPES_distinct by (rule distinct_count_one [rotated])
  ultimately show ?thesis by simp
qed

subsection \<open>Normalisation and validation\<close>

lemma get_not_null:
  "data0 \<noteq> JNull \<Longrightarrow>
   get (if typeof data0 \<noteq> ''object'' then JObj [] else data0) k = ret (read_prop data0 k)"
  by (cases data0) (simp_all add: read_prop_def)

lemma normalizeData_unfold:
  assumes "data0 \<noteq> JNull"
  shows "normalizeData this data0 =
     bind (if truthy (read_prop data0 (str ''align'')) then ret (read_prop data0 (str ''align''))
           else bind (userDefaultAlignType this) (\<lambda>d. ret (JStr d)))
       (\<lambda>al. ret \<lparr>text = or_js (read_prop data0 (str ''text'')) (JStr []), align = al\<rparr>)"
  unfolding normalizeData_def Let_def
  by (simp only: get_not_null [OF assms] bind_ret)

lemma normalizeData_null: "normalizeData this JNull = throw TypeError"
  by (simp add: normalizeData_def)

lemma normalizeData_result:
  assumes "data0 \<noteq> JNull" and "userDefaultAlignType this = (Inr d, w)"
  shows "normalizeData this data0 =
     (Inr \<lparr>text = (if truthy (read_prop data0 (str ''text'')) then read_prop data0 (str ''text'')
                     else JStr []),
            align = (if truthy (read_prop data0 (str ''align''))
                     then read_prop data0 (str ''align'') else JStr d)\<rparr>,
      if truthy (read_prop data0 (str ''align'')) then [] else w)"
  by (simp add: normalizeData_unfold [OF assms(1)] assms(2) or_js_def bind_Inr ret_def)

lemma get_cases:
  obtains (throws) "get v k = throw TypeError" | (returns) x where "get v k = ret x"
  by (cases v) simp_all

lemma validate_preserve: "userPreserveBlank this \<Longrightarrow> validate this savedData = ret True"
  by (simp add: validate_def)

lemma validate_string:
  "\<not> userPreserveBlank this \<Longrightarrow> get savedData (str ''text'') = ret (JStr s) \<Longrightarrow>
   validate this savedData = ret (trim s \<noteq> [])"
  by (simp add: validate_def)

lemma validate_throws:
  assumes "\<not> userPreserveBlank this" and "\<forall>s. get savedData (str ''text'') \<noteq> ret (JStr s)"
  shows "validate this savedData = throw TypeError"
proof (cases savedData "str ''text''" rule: get_cases)
  case throws
  then show ?thesis using assms by (simp add: validate_def)
next
  case (returns x)
  with assms(2) have "\<forall>s. x \<noteq> JStr s" by simp
  then have "call_trim x = throw TypeError" by (cases x) simp_all
  then show ?thesis using assms(1) returns by (simp add: validate_def)
qed

lemma validate_returns_iff:
  "returns (validate this savedData) \<longleftrightarrow>
   userPreserveBlank this \<or> (\<exists>s. get savedData (str ''text'') = ret (JStr s))"
  using validate_preserve [of this savedData] validate_string [of this savedData]
    validate_throws [of this savedData]
  by (metis returns_simps(1,2))

lemma trim_empty_iff: "trim s = [] \<longleftrightarrow> (\<forall>c\<in>set s. isWhiteSpace c)"
proof
  assume "\<forall>c\<in>set s. isWhiteSpace c"
  then have "dropWhile isWhiteSpace s = []" by (simp only: dropWhile_eq_Nil_conv)
  then show "trim s = []" by (simp only: trim_def rev.simps dropWhile.simps)
next
  assume "trim s = []"
  then have "dropWhile isWhiteSpace (rev (dropWhile isWhiteSpace s)) = []"
    by (simp add: trim_def)
  then have all: "\<forall>c\<in>set (dropWhile isWhiteSpace s). isWhiteSpace c"
    by (simp only: dropWhile_eq_Nil_conv set_rev)
  have "dropWhile isWhiteSpace s = []"
  proof (rule ccontr)
    assume ne: "dropWhile isWhiteSpace s \<noteq> []"
    then have "\<not> isWhiteSpace (hd (dropWhile isWhiteSpace s))" by (rule hd_dropWhile)
    moreover have "hd (dropWhile isWhiteSpace s) \<in> set (dropWhile isWhiteSpace s)"
      using ne by (rule hd_in_set)
    ultimately show False using all by blast
  qed
  then show "\<forall>c\<in>set s. isWhiteSpace c" by (simp only: dropWhile_eq_Nil_conv)
qed

lemma trim_decomposition:
  "\<exists>l r. s = l @ trim s @ r \<and> (\<forall>c\<in>set l. isWhiteSpace c) \<and> (\<forall>c\<in>set r. isWhiteSpace c)
     \<and> (trim s \<noteq> [] \<longrightarrow> \<not> isWhiteSpace (hd (trim s)) \<and> \<not> isWhiteSpace (last (trim s)))"
proof -
  let ?P = isWhiteSpace
  let ?m = "dropWhile ?P s"
  let ?l = "takeWhile ?P s"
  let ?r = "rev (takeWhile ?P (rev ?m))"
  have 1: "s = ?l @ ?m" by simp
  have "?m = rev (dropWhile ?P (rev ?m)) @ rev (takeWhile ?P (rev ?m))"
    by (metis rev_append rev_rev_ident takeWhile_dropWhile_id)
  then have 2: "?m = trim s @ ?r" by (simp only: trim_def)
  have 3: "\<forall>c\<in>set ?l. ?P c" by (auto dest: set_takeWhileD)
  have 4: "\<forall>c\<in>set ?r. ?P c" by (auto dest: set_takeWhileD)
  have 5: "trim s \<noteq> [] \<longrightarrow> \<not> ?P (last (trim s))"
    using hd_dropWhile [of ?P "rev ?m"] by (auto simp: trim_def last_rev)
  have 6: "trim s \<noteq> [] \<longrightarrow> \<not> ?P (hd (trim s))"
  proof
    assume ne: "trim s \<noteq> []"
    then have "?m \<noteq> []" using 2 by (metis append_is_Nil_conv)
    then have "\<not> ?P (hd ?m)" by (rule hd_dropWhile)
    moreover have "hd ?m = hd (trim s)" using 2 ne by (metis hd_append2)
    ultimately show "\<not> ?P (hd (trim s))" by simp
  qed
  from 1 2 have "s = ?l @ trim s @ ?r" by simp
  with 3 4 5 6 show ?thesis by blast
qed

lemma read_prop_non_object: "typeof data0 \<noteq> ''object'' \<Longrightarrow> read_prop data0 k = JUndefined"
  by (cases data0) (simp_all add: read_prop_def)

lemma normalizeData_returns:
  assumes "data0 \<noteq> JNull"
    and "\<not> truthy (alignTypes (this_config this)) \<or> has_includes (alignTypes (this_config this))"
  shows "returns (normalizeData this data0)"
proof -
  from assms(2) have "returns (availableAlignTypes this)"
    by (simp add: available_returns_iff)
  then obtain allowed where av: "availableAlignTypes this = ret allowed"
    by (cases this rule: available_cases) auto
  obtain d w where "userDefaultAlignType this = (Inr d, w)"
    using av by (rule userDefault_result)
  then show ?thesis
    by (simp add: normalizeData_result [OF assms(1)])
qed

lemma available_data_irrelevant:
  "availableAlignTypes (this\<lparr>this_data := d\<rparr>) = availableAlignTypes this"
  by (simp add: availableAlignTypes_def)

section \<open>The allowed alignment types\<close>

text \<open>
  Claim C5. When the configured \<open>alignTypes\<close> is absent (\<open>undefined\<close>, or any other
  falsy value), \<open>availableAlignTypes\<close> returns the whole of \<open>ALIGN_TYPES\<close>, left,
  center, right, justify, in that order. When it is an array, the result is
  \<open>ALIGN_TYPES\<close> filtered to the strings that occur in the array: the order is the
  canonical one, whatever the order in the configuration, entries of the array that are
  no alignment type play no part, and the call returns without throwing and without a
  warning.
\<close>

theorem availableAlignTypes_spec:
  "(\<not> truthy (alignTypes (this_config this)) \<longrightarrow>
      availableAlignTypes this =
        ret [str ''left'', str ''center'', str ''right'', str ''justify''])
   \<and> (alignTypes (this_config this) = JArr xs \<longrightarrow>
      availableAlignTypes this =
        ret (filter (\<lambda>a. JStr a \<in> set xs)
               [str ''left'', str ''center'', str ''right'', str ''justify'']))"
  using available_falsy [of this] available_array [of this xs]
  by (simp add: ALIGN_TYPES_def)

text \<open>
  At \<open>{alignTypes: ['right', 'bogus', 7, 'left']}\<close> the result is \<open>['left', 'right']\<close>,
  and with no configuration at all it is the four types.
\<close>

theorem availableAlignTypes_spec_witness:
  "alignTypes (this_config (instance_with
       (JObj [(str ''alignTypes'', JArr [JS ''right'', JS ''bogus'', JNum (Finite 7), JS ''left''])])
       \<lparr>text = JStr [], align = JS ''left''\<rparr>))
     = JArr [JS ''right'', JS ''bogus'', JNum (Finite 7), JS ''left'']
   \<and> availableAlignTypes (instance_with
       (JObj [(str ''alignTypes'', JArr [JS ''right'', JS ''bogus'', JNum (Finite 7), JS ''left''])])
       \<lparr>text = JStr [], align = JS ''left''\<rparr>)
     = ret [str ''left'', str ''right'']
   \<and> \<not> truthy (alignTypes (this_config (instance_with JUndefined
       \<lparr>text = JStr [], align = JS ''left''\<rparr>)))
   \<and> availableAlignTypes (instance_with JUndefined \<lparr>text = JStr [], align = JS ''left''\<rparr>)
     = ret [str ''left'', str ''center'', str ''right'', str ''justify'']"
  using
    availableAlignTypes_spec [of "instance_with
       (JObj [(str ''alignTypes'', JArr [JS ''right'', JS ''bogus'', JNum (Finite 7), JS ''left''])])
       \<lparr>text = JStr [], align = JS ''left''\<rparr>"
      "[JS ''right'', JS ''bogus'', JNum (Finite 7), JS ''left'']"]
    availableAlignTypes_spec [of "instance_with JUndefined \<lparr>text = JStr [], align = JS ''left''\<rparr>"]
  by (simp add: instance_with_def config_of_simps read_prop_def or_js_def str_def)

section \<open>The default alignment\<close>

text \<open>
  Claim C4. Let \<open>allowed\<close> be the result of \<open>availableAlignTypes\<close>. When the configured
  \<open>defaultAlignType\<close> is present (truthy) and a member of \<open>allowed\<close>,
  \<open>userDefaultAlignType\<close> returns it, with no warning. When it is present and not a
  member, exactly one warning is written with \<open>console.warn\<close> and the canonical default
  \<open>left\<close> is returned. When it is absent (\<open>undefined\<close> or another falsy value),
  \<open>left\<close> is returned with no warning. The fallback is not checked against
  \<open>allowed\<close>: for \<open>{alignTypes: ['right', 'justify'], defaultAlignType: 'center'}\<close>
  the allowed types are right and justify and the resolved default is \<open>left\<close>.
\<close>

theorem userDefaultAlignType_spec:
  "(availableAlignTypes this = ret allowed \<and> defaultAlignType (this_config this) = JStr a
      \<and> a \<in> set allowed \<longrightarrow>
      userDefaultAlignType this = ret a)
   \<and> (availableAlignTypes this = ret allowed \<and> truthy (defaultAlignType (this_config this))
      \<and> defaultAlignType (this_config this) \<notin> JStr ` set allowed \<longrightarrow>
      userDefaultAlignType this = (Inr (str ''left''), [invalid_default_warning]))
   \<and> (\<not> truthy (defaultAlignType (this_config this)) \<longrightarrow>
      userDefaultAlignType this = ret (str ''left''))
   \<and> availableAlignTypes (instance_with
        (JObj [(str ''alignTypes'', JArr [JS ''right'', JS ''justify'']),
               (str ''defaultAlignType'', JS ''center'')])
        \<lparr>text = JStr [], align = JS ''left''\<rparr>) = ret [str ''right'', str ''justify'']
   \<and> userDefaultAlignType (instance_with
        (JObj [(str ''alignTypes'', JArr [JS ''right'', JS ''justify'']),
               (str ''defaultAlignType'', JS ''center'')])
        \<lparr>text = JStr [], align = JS ''left''\<rparr>)
       = (Inr (str ''left''), [invalid_default_warning])
   \<and> str ''left'' \<notin> set [str ''right'', str ''justify'']"
proof -
  let ?s3 = "instance_with
        (JObj [(str ''alignTypes'', JArr [JS ''right'', JS ''justify'']),
               (str ''defaultAlignType'', JS ''center'')])
        \<lparr>text = JStr [], align = JS ''left''\<rparr>"
  have av: "availableAlignTypes ?s3 = ret [str ''right'', str ''justify'']"
    by (simp add: available_array [where xs = "[JS ''right'', JS ''justify'']"]
        instance_with_def config_of_simps read_prop_def or_js_def ALIGN_TYPES_def str_def)
  have "userDefaultAlignType ?s3 = (Inr (str ''left''), [invalid_default_warning])"
    using userDefault_invalid [OF av]
    by (simp add: instance_with_def config_of_simps read_prop_def or_js_def
        DEFAULT_ALIGN_TYPE_def str_def)
  moreover have "str ''left'' \<notin> set [str ''right'', str ''justify'']"
    by (simp add: str_def)
  ultimately show ?thesis
    using av userDefault_member [of this allowed a] userDefault_invalid [of this allowed]
      userDefault_absent [of this]
    by (simp add: DEFAULT_ALIGN_TYPE_def)
qed

text \<open>
  With \<open>{alignTypes: ['center', 'right'], defaultAlignType: 'right'}\<close> the default is
  \<open>right\<close>; without \<open>defaultAlignType\<close> it is \<open>left\<close>.
\<close>

theorem userDefaultAlignType_spec_witness:
  "availableAlignTypes (instance_with
        (JObj [(str ''alignTypes'', JArr [JS ''center'', JS ''right'']),
               (str ''defaultAlignType'', JS ''right'')])
        \<lparr>text = JStr [], align = JS ''center''\<rparr>) = ret [str ''center'', str ''right'']
   \<and> userDefaultAlignType (instance_with
        (JObj [(str ''alignTypes'', JArr [JS ''center'', JS ''right'']),
               (str ''defaultAlignType'', JS ''right'')])
        \<lparr>text = JStr [], align = JS ''center''\<rparr>) = ret (str ''right'')
   \<and> userDefaultAlignType (instance_with
        (JObj [(str ''alignTypes'', JArr [JS ''center'', JS ''right''])])
        \<lparr>text = JStr [], align = JS ''center''\<rparr>) = ret (str ''left'')"
proof -
  let ?c = "JObj [(str ''alignTypes'', JArr [JS ''center'', JS ''right'']),
               (str ''defaultAlignType'', JS ''right'')]"
  let ?d = "\<lparr>text = JStr [], align = JS ''center''\<rparr>"
  have av: "availableAlignTypes (instance_with ?c ?d) = ret [str ''center'', str ''right'']"
    by (simp add: available_array [where xs = "[JS ''center'', JS ''right'']"]
        instance_with_def config_of_simps read_prop_def or_js_def ALIGN_TYPES_def str_def)
  have "userDefaultAlignType (instance_with ?c ?d) = ret (str ''right'')"
    using userDefaultAlignType_spec
      [of "instance_with ?c ?d" "[str ''center'', str ''right'']" "str ''right''"] av
    by (simp add: instance_with_def config_of_simps read_prop_def or_js_def str_def)
  moreover have "userDefaultAlignType (instance_with
        (JObj [(str ''alignTypes'', JArr [JS ''center'', JS ''right''])]) ?d) = ret (str ''left'')"
    using userDefaultAlignType_spec
      [of "instance_with (JObj [(str ''alignTypes'', JArr [JS ''center'', JS ''right''])]) ?d"]
    by (simp add: instance_with_def config_of_simps read_prop_def or_js_def str_def)
  ultimately show ?thesis using av by simp
qed

section \<open>The current alignment\<close>

text \<open>
  Claim C3. Let \<open>allowed\<close> be the result of \<open>availableAlignTypes\<close>. When the stored
  \<open>this._data.align\<close> is a member of \<open>allowed\<close>, \<open>currentAlignType\<close> returns it;
  otherwise it is whatever \<open>userDefaultAlignType\<close> gives (its value and its warning).
\<close>

theorem currentAlignType_spec:
  assumes "availableAlignTypes this = ret allowed"
  shows "(align (this_data this) = JStr a \<and> a \<in> set allowed \<longrightarrow>
            currentAlignType this = ret a)
       \<and> (align (this_data this) \<notin> JStr ` set allowed \<longrightarrow>
            currentAlignType this = userDefaultAlignType this)"
  using current_member [OF assms, of a] current_fallback [OF assms] by simp

text \<open>
  Scenario 2 of the specification: with \<open>{alignTypes: ['left', 'right']}\<close> and stored
  align \<open>center\<close> the current alignment is \<open>left\<close>; with stored align \<open>right\<close> it
  is \<open>right\<close>.
\<close>

theorem currentAlignType_spec_witness:
  "availableAlignTypes (instance_with (JObj [(str ''alignTypes'', JArr [JS ''left'', JS ''right''])])
        \<lparr>text = JStr [], align = JS ''center''\<rparr>) = ret [str ''left'', str ''right'']
   \<and> currentAlignType (instance_with (JObj [(str ''alignTypes'', JArr [JS ''left'', JS ''right''])])
        \<lparr>text = JStr [], align = JS ''center''\<rparr>) = ret (str ''left'')
   \<and> currentAlignType (instance_with (JObj [(str ''alignTypes'', JArr [JS ''left'', JS ''right''])])
        \<lparr>text = JStr [], align = JS ''right''\<rparr>) = ret (str ''right'')"
proof -
  let ?c = "JObj [(str ''alignTypes'', JArr [JS ''left'', JS ''right''])]"
  have av: "availableAlignTypes (instance_with ?c d) = ret [str ''left'', str ''right'']" for d
    by (simp add: available_array [where xs = "[JS ''left'', JS ''right'']"]
        instance_with_def config_of_simps read_prop_def or_js_def ALIGN_TYPES_def str_def)
  have dflt: "userDefaultAlignType (instance_with ?c d) = ret (str ''left'')" for d
    by (simp add: userDefault_absent instance_with_def config_of_simps read_prop_def
        or_js_def DEFAULT_ALIGN_TYPE_def str_def)
  have "currentAlignType (instance_with ?c \<lparr>text = JStr [], align = JS ''center''\<rparr>)
      = ret (str ''left'')"
    using currentAlignType_spec [OF av, of "\<lparr>text = JStr [], align = JS ''center''\<rparr>"] dflt
    by (simp add: instance_with_def str_def)
  moreover have "currentAlignType (instance_with ?c \<lparr>text = JStr [], align = JS ''right''\<rparr>)
      = ret (str ''right'')"
    using currentAlignType_spec [OF av, of "\<lparr>text = JStr [], align = JS ''right''\<rparr>" "str ''right''"]
    by (simp add: instance_with_def str_def)
  ultimately show ?thesis using av by simp
qed

section \<open>Membership of the default and of the current alignment\<close>

text \<open>
  The invariant of claim C1 does not hold as stated. With
  \<open>{alignTypes: ['right', 'justify'], defaultAlignType: 'center'}\<close> and stored align
  \<open>left\<close> (what \<open>_normalizeData\<close> stores for data without \<open>align\<close>), the allowed
  types are right and justify, while the resolved default and the current alignment are
  both \<open>left\<close>. With \<open>{alignTypes: ['bogus']}\<close> the allowed list is empty: there is
  no fallback to the four types.
\<close>

theorem allowed_invariant_counterexample:
  "availableAlignTypes (instance_with
        (JObj [(str ''alignTypes'', JArr [JS ''right'', JS ''justify'']),
               (str ''defaultAlignType'', JS ''center'')])
        \<lparr>text = JStr [], align = JS ''left''\<rparr>) = ret [str ''right'', str ''justify'']
   \<and> userDefaultAlignType (instance_with
        (JObj [(str ''alignTypes'', JArr [JS ''right'', JS ''justify'']),
               (str ''defaultAlignType'', JS ''center'')])
        \<lparr>text = JStr [], align = JS ''left''\<rparr>)
       = (Inr (str ''left''), [invalid_default_warning])
   \<and> currentAlignType (instance_with
        (JObj [(str ''alignTypes'', JArr [JS ''right'', JS ''justify'']),
               (str ''defaultAlignType'', JS ''center'')])
        \<lparr>text = JStr [], align = JS ''left''\<rparr>)
       = (Inr (str ''left''), [invalid_default_warning])
   \<and> str ''left'' \<notin> set [str ''right'', str ''justify'']
   \<and> availableAlignTypes (instance_with (JObj [(str ''alignTypes'', JArr [JS ''bogus''])])
        \<lparr>text = JStr [], align = JS ''left''\<rparr>) = ret []"
proof -
  let ?s3 = "instance_with
        (JObj [(str ''alignTypes'', JArr [JS ''right'', JS ''justify'']),
               (str ''defaultAlignType'', JS ''center'')])
        \<lparr>text = JStr [], align = JS ''left''\<rparr>"
  have av: "availableAlignTypes ?s3 = ret [str ''right'', str ''justify'']"
    by (simp add: available_array [where xs = "[JS ''right'', JS ''justify'']"]
        instance_with_def config_of_simps read_prop_def or_js_def ALIGN_TYPES_def str_def)
  have dflt: "userDefaultAlignType ?s3 = (Inr (str ''left''), [invalid_default_warning])"
    using userDefault_invalid [OF av]
    by (simp add: instance_with_def config_of_simps read_prop_def or_js_def
        DEFAULT_ALIGN_TYPE_def str_def)
  have cur: "currentAlignType ?s3 = (Inr (str ''left''), [invalid_default_warning])"
    using current_fallback [OF av] dflt by (simp add: instance_with_def str_def)
  have none: "availableAlignTypes (instance_with (JObj [(str ''alignTypes'', JArr [JS ''bogus''])])
        \<lparr>text = JStr [], align = JS ''left''\<rparr>) = ret []"
    by (simp add: available_array [where xs = "[JS ''bogus'']"]
        instance_with_def config_of_simps read_prop_def or_js_def ALIGN_TYPES_def str_def)
  have "str ''left'' \<notin> set [str ''right'', str ''justify'']"
    by (simp add: str_def)
  with av dflt cur none show ?thesis by simp
qed

text \<open>
  Claim C1, amended. Whenever \<open>availableAlignTypes\<close> returns a list \<open>allowed\<close>: it is
  a part of \<open>ALIGN_TYPES\<close>, and for a configured array it is exactly the filtered
  \<open>ALIGN_TYPES\<close>, empty when nothing matches; \<open>userDefaultAlignType\<close> and
  \<open>currentAlignType\<close> return, each a member of \<open>allowed\<close> or else the canonical default
  \<open>left\<close>. So when \<open>left\<close> is allowed, both are members of \<open>allowed\<close>, whatever the
  stored and configured values are, and \<open>allowed\<close> is not empty.
\<close>

theorem allowed_invariant_amended:
  assumes "availableAlignTypes this = ret allowed"
  shows "set allowed \<subseteq> set ALIGN_TYPES
     \<and> (\<forall>xs. alignTypes (this_config this) = JArr xs \<longrightarrow>
            allowed = filter (\<lambda>a. JStr a \<in> set xs) ALIGN_TYPES)
     \<and> (\<exists>d w. userDefaultAlignType this = (Inr d, w)
            \<and> (d \<in> set allowed \<or> d = str ''left'')
            \<and> (str ''left'' \<in> set allowed \<longrightarrow> d \<in> set allowed))
     \<and> (\<exists>c w. currentAlignType this = (Inr c, w)
            \<and> (c \<in> set allowed \<or> c = str ''left'')
            \<and> (str ''left'' \<in> set allowed \<longrightarrow> c \<in> set allowed))
     \<and> (str ''left'' \<in> set allowed \<longrightarrow> allowed \<noteq> [])"
proof -
  have sub: "set allowed \<subseteq> set ALIGN_TYPES"
    using assms by (rule available_subset)
  have arr: "\<forall>xs. alignTypes (this_config this) = JArr xs \<longrightarrow>
            allowed = filter (\<lambda>a. JStr a \<in> set xs) ALIGN_TYPES"
    using assms available_array [of this] by simp
  obtain d w where d: "userDefaultAlignType this = (Inr d, w)"
      "d \<in> set allowed \<or> d = DEFAULT_ALIGN_TYPE"
    using assms by (rule userDefault_result)
  obtain c w' where c: "currentAlignType this = (Inr c, w')"
      "c \<in> set allowed \<or> c = DEFAULT_ALIGN_TYPE"
    using assms by (rule current_result)
  from d have "\<exists>d w. userDefaultAlignType this = (Inr d, w)
            \<and> (d \<in> set allowed \<or> d = str ''left'')
            \<and> (str ''left'' \<in> set allowed \<longrightarrow> d \<in> set allowed)"
    by (auto simp: DEFAULT_ALIGN_TYPE_def)
  moreover from c have "\<exists>c w. currentAlignType this = (Inr c, w)
            \<and> (c \<in> set allowed \<or> c = str ''left'')
            \<and> (str ''left'' \<in> set allowed \<longrightarrow> c \<in> set allowed)"
    by (auto simp: DEFAULT_ALIGN_TYPE_def)
  moreover have "str ''left'' \<in> set allowed \<longrightarrow> allowed \<noteq> []"
    by auto
  ultimately show ?thesis using sub arr by blast
qed

text \<open>With \<open>{alignTypes: ['right', 'left']}\<close> and stored align \<open>center\<close>.\<close>

theorem allowed_invariant_amended_witness:
  "availableAlignTypes (instance_with (JObj [(str ''alignTypes'', JArr [JS ''right'', JS ''left''])])
        \<lparr>text = JStr [], align = JS ''center''\<rparr>) = ret [str ''left'', str ''right'']
   \<and> (\<exists>d w. userDefaultAlignType (instance_with
          (JObj [(str ''alignTypes'', JArr [JS ''right'', JS ''left''])])
          \<lparr>text = JStr [], align = JS ''center''\<rparr>) = (Inr d, w)
        \<and> d \<in> set [str ''left'', str ''right''])
   \<and> (\<exists>c w. currentAlignType (instance_with
          (JObj [(str ''alignTypes'', JArr [JS ''right'', JS ''left''])])
          \<lparr>text = JStr [], align = JS ''center''\<rparr>) = (Inr c, w)
        \<and> c \<in> set [str ''left'', str ''right''])"
proof -
  let ?i = "instance_with (JObj [(str ''alignTypes'', JArr [JS ''right'', JS ''left''])])
        \<lparr>text = JStr [], align = JS ''center''\<rparr>"
  have av: "availableAlignTypes ?i = ret [str ''left'', str ''right'']"
    by (simp add: available_array [where xs = "[JS ''right'', JS ''left'']"]
        instance_with_def config_of_simps read_prop_def or_js_def ALIGN_TYPES_def str_def)
  have "str ''left'' \<in> set [str ''left'', str ''right'']"
    by simp
  with allowed_invariant_amended [OF av] av show ?thesis
    by blast
qed

text \<open>
  Claim C10. For a configuration whose \<open>alignTypes\<close> is absent (falsy), an array or a
  string, and any stored data, \<open>currentAlignType\<close> returns a member of \<open>ALIGN_TYPES\<close>,
  also when the allowed list is empty or lacks \<open>left\<close> and when the stored align is an
  arbitrary value; and \<open>renderSettings\<close> returns a menu in which exactly one entry has
  \<open>isActive\<close> true.
\<close>

theorem currentAlignType_in_universe:
  assumes "\<not> truthy (alignTypes (this_config this)) \<or> has_includes (alignTypes (this_config this))"
  shows "\<exists>c w. currentAlignType this = (Inr c, w) \<and> c \<in> set ALIGN_TYPES
       \<and> (\<exists>items w'. renderSettings getAlignmentIcon t this = (Inr items, w')
             \<and> length (filter isActive items) = 1)"
proof -
  from assms have "returns (availableAlignTypes this)"
    by (simp add: available_returns_iff)
  then obtain allowed where av: "availableAlignTypes this = ret allowed"
    by (cases this rule: available_cases) auto
  obtain c w where c: "currentAlignType this = (Inr c, w)"
      "c \<in> set allowed \<or> c = DEFAULT_ALIGN_TYPE"
    using av by (rule current_result)
  have mem: "c \<in> set ALIGN_TYPES"
    using c(2) available_subset [OF av] DEFAULT_in_ALIGN_TYPES by auto
  show ?thesis
    using c(1) mem renderSettings_returns [OF c(1)] one_active [OF mem] by blast
qed

text \<open>
  With \<open>{alignTypes: ['bogus']}\<close>, where the allowed list is empty, and stored align
  \<open>sideways\<close>.
\<close>

theorem currentAlignType_in_universe_witness:
  "has_includes (alignTypes (this_config (instance_with
        (JObj [(str ''alignTypes'', JArr [JS ''bogus''])])
        \<lparr>text = JStr [], align = JS ''sideways''\<rparr>)))
   \<and> availableAlignTypes (instance_with
        (JObj [(str ''alignTypes'', JArr [JS ''bogus''])])
        \<lparr>text = JStr [], align = JS ''sideways''\<rparr>) = ret []
   \<and> (\<exists>c w. currentAlignType (instance_with
        (JObj [(str ''alignTypes'', JArr [JS ''bogus''])])
        \<lparr>text = JStr [], align = JS ''sideways''\<rparr>) = (Inr c, w) \<and> c \<in> set ALIGN_TYPES
       \<and> (\<exists>items w'. renderSettings (\<lambda>a. a) (\<lambda>l. l) (instance_with
              (JObj [(str ''alignTypes'', JArr [JS ''bogus''])])
              \<lparr>text = JStr [], align = JS ''sideways''\<rparr>) = (Inr items, w')
             \<and> length (filter isActive items) = 1))"
proof -
  let ?i = "instance_with (JObj [(str ''alignTypes'', JArr [JS ''bogus''])])
        \<lparr>text = JStr [], align = JS ''sideways''\<rparr>"
  have h: "has_includes (alignTypes (this_config ?i))"
    by (simp add: instance_with_def config_of_simps read_prop_def or_js_def has_includes_def str_def)
  have av: "availableAlignTypes ?i = ret []"
    by (simp add: available_array [where xs = "[JS ''bogus'']"]
        instance_with_def config_of_simps read_prop_def or_js_def ALIGN_TYPES_def str_def)
  from h have "\<not> truthy (alignTypes (this_config ?i)) \<or> has_includes (alignTypes (this_config ?i))"
    by simp
  from currentAlignType_in_universe [OF this, of "\<lambda>a. a" "\<lambda>l. l"] h av show ?thesis
    by blast
qed

section \<open>The settings menu\<close>

text \<open>
  Claim C2 says that the menu has one entry for each allowed type and none for any other
  type. \<open>renderSettings\<close> maps over \<open>Paragraph.ALIGN_TYPES\<close>, not over
  \<open>this.availableAlignTypes\<close>: with \<open>{alignTypes: ['left', 'right']}\<close> the allowed
  types are left and right, and the menu still has the four entries left, center, right
  and justify. The \<open>isActive\<close> flags are as the claim says.
\<close>

theorem renderSettings_ignores_alignTypes:
  "availableAlignTypes (instance_with (JObj [(str ''alignTypes'', JArr [JS ''left'', JS ''right''])])
        \<lparr>text = JStr [], align = JS ''left''\<rparr>) = ret [str ''left'', str ''right'']
   \<and> renderSettings getAlignmentIcon t
        (instance_with (JObj [(str ''alignTypes'', JArr [JS ''left'', JS ''right''])])
        \<lparr>text = JStr [], align = JS ''left''\<rparr>)
     = ret [\<lparr>icon = getAlignmentIcon (str ''left''), label = t (str ''Left''),
              onActivate = str ''left'', isActive = True,
              closeOnActivate = True, toggle = str ''align''\<rparr>,
            \<lparr>icon = getAlignmentIcon (str ''center''), label = t (str ''Center''),
              onActivate = str ''center'', isActive = False,
              closeOnActivate = True, toggle = str ''align''\<rparr>,
            \<lparr>icon = getAlignmentIcon (str ''right''), label = t (str ''Right''),
              onActivate = str ''right'', isActive = False,
              closeOnActivate = True, toggle = str ''align''\<rparr>,
            \<lparr>icon = getAlignmentIcon (str ''justify''), label = t (str ''Justify''),
              onActivate = str ''justify'', isActive = False,
              closeOnActivate = True, toggle = str ''align''\<rparr>]"
proof -
  let ?i = "instance_with (JObj [(str ''alignTypes'', JArr [JS ''left'', JS ''right''])])
        \<lparr>text = JStr [], align = JS ''left''\<rparr>"
  have av: "availableAlignTypes ?i = ret [str ''left'', str ''right'']"
    by (simp add: available_array [where xs = "[JS ''left'', JS ''right'']"]
        instance_with_def config_of_simps read_prop_def or_js_def ALIGN_TYPES_def str_def)
  have cur: "currentAlignType ?i = (Inr (str ''left''), [])"
    using current_member [OF av, of "str ''left''"]
    by (simp add: instance_with_def ret_def)
  show ?thesis
    using av renderSettings_returns [OF cur, of getAlignmentIcon t]
    by (simp add: ret_def ALIGN_TYPES_def menu_item_for_def capitalize_def
        toUpperCase_ascii_def str_def)
qed

section \<open>Normalising raw data\<close>

text \<open>
  Claim C6 says that the text becomes the empty string when the raw text is not a string.
  \<open>data.text || ''\<close> tests truthiness, not the type: the raw text \<open>42\<close> (a number) is
  kept as it is.
\<close>

theorem normalizeData_text_counterexample:
  "normalizeData (instance_with JUndefined \<lparr>text = JStr [], align = JS ''left''\<rparr>)
       (JObj [(str ''text'', JNum (Finite 42))])
     = ret \<lparr>text = JNum (Finite 42), align = JS ''left''\<rparr>
   \<and> JNum (Finite 42) \<noteq> JStr []"
proof -
  let ?i = "instance_with JUndefined \<lparr>text = JStr [], align = JS ''left''\<rparr>"
  have "userDefaultAlignType ?i = (Inr (str ''left''), [])"
    by (simp add: userDefault_absent instance_with_def config_of_simps read_prop_def or_js_def
        DEFAULT_ALIGN_TYPE_def ret_def)
  from normalizeData_result [OF _ this, of "JObj [(str ''text'', JNum (Finite 42))]"]
  show ?thesis
    by (simp add: read_prop_def ret_def str_def)
qed

text \<open>
  Claim C6, amended. For every raw input other than \<open>null\<close>, and with \<open>d\<close> the
  resolved default: the \<open>text\<close> of the result is the raw text, unchanged and of
  whatever type, when that is truthy, and the empty string otherwise (absent, \<open>null\<close>,
  \<open>''\<close>, \<open>0\<close>, \<open>NaN\<close>, \<open>false\<close>); the \<open>align\<close> is the raw align when that is
  truthy and \<open>d\<close> otherwise; and a raw input whose \<open>typeof\<close> is not \<open>object\<close> gives
  \<open>{text: '', align: d}\<close>. (\<open>read_prop\<close> reads an own property of an object and is
  \<open>undefined\<close> on everything else.)
\<close>

theorem normalizeData_amended:
  assumes "data0 \<noteq> JNull" and "userDefaultAlignType this = (Inr d, w)"
  shows "(\<exists>w'. normalizeData this data0 =
           (Inr \<lparr>text = (if truthy (read_prop data0 (str ''text''))
                           then read_prop data0 (str ''text'') else JStr []),
                  align = (if truthy (read_prop data0 (str ''align''))
                           then read_prop data0 (str ''align'') else JStr d)\<rparr>, w'))
       \<and> (typeof data0 \<noteq> ''object'' \<longrightarrow>
            normalizeData this data0 = (Inr \<lparr>text = JStr [], align = JStr d\<rparr>, w))"
  using normalizeData_result [OF assms]
  by (simp add: read_prop_non_object)

text \<open>
  A text with spaces and markup and an unknown align are passed through; the text
  \<open>false\<close> becomes \<open>''\<close>; the raw input \<open>5\<close> gives \<open>{text: '', align: 'left'}\<close>.
\<close>

theorem normalizeData_amended_witness:
  "userDefaultAlignType (instance_with JUndefined \<lparr>text = JStr [], align = JS ''left''\<rparr>)
     = (Inr (str ''left''), [])
   \<and> normalizeData (instance_with JUndefined \<lparr>text = JStr [], align = JS ''left''\<rparr>)
       (JObj [(str ''text'', JS '' a <b>b</b> ''), (str ''align'', JS ''sideways'')])
     = (Inr \<lparr>text = JS '' a <b>b</b> '', align = JS ''sideways''\<rparr>, [])
   \<and> normalizeData (instance_with JUndefined \<lparr>text = JStr [], align = JS ''left''\<rparr>)
       (JObj [(str ''text'', JBool False)])
     = (Inr \<lparr>text = JStr [], align = JS ''left''\<rparr>, [])
   \<and> normalizeData (instance_with JUndefined \<lparr>text = JStr [], align = JS ''left''\<rparr>)
       (JNum (Finite 5))
     = (Inr \<lparr>text = JStr [], align = JS ''left''\<rparr>, [])"
proof -
  let ?i = "instance_with JUndefined \<lparr>text = JStr [], align = JS ''left''\<rparr>"
  have d: "userDefaultAlignType ?i = (Inr (str ''left''), [])"
    by (simp add: userDefault_absent instance_with_def config_of_simps read_prop_def or_js_def
        DEFAULT_ALIGN_TYPE_def ret_def)
  have "normalizeData ?i
       (JObj [(str ''text'', JS '' a <b>b</b> ''), (str ''align'', JS ''sideways'')])
     = (Inr \<lparr>text = JS '' a <b>b</b> '', align = JS ''sideways''\<rparr>, [])"
    using normalizeData_amended [OF _ d,
        of "JObj [(str ''text'', JS '' a <b>b</b> ''), (str ''align'', JS ''sideways'')]"]
      normalizeData_result [OF _ d,
        of "JObj [(str ''text'', JS '' a <b>b</b> ''), (str ''align'', JS ''sideways'')]"]
    by (simp add: read_prop_def str_def)
  moreover have "normalizeData ?i (JObj [(str ''text'', JBool False)])
     = (Inr \<lparr>text = JStr [], align = JS ''left''\<rparr>, [])"
    using normalizeData_amended [OF _ d, of "JObj [(str ''text'', JBool False)]"]
      normalizeData_result [OF _ d, of "JObj [(str ''text'', JBool False)]"]
    by (simp add: read_prop_def str_def)
  moreover have "normalizeData ?i (JNum (Finite 5))
     = (Inr \<lparr>text = JStr [], align = JS ''left''\<rparr>, [])"
    using normalizeData_amended [OF _ d, of "JNum (Finite 5)"] by simp
  ultimately show ?thesis using d by simp
qed

section \<open>Inputs that make an operation throw\<close>

text \<open>
  Claim C7 says that no input makes an operation throw. \<open>validate\<close> reads
  \<open>savedData.text.trim()\<close> with no guard: saved data without a \<open>text\<close>, or \<open>null\<close>,
  throws a TypeError when \<open>preserveBlank\<close> is off. \<open>_normalizeData(null)\<close> throws
  as well, since \<open>typeof null\<close> is \<open>object\<close> and the guard lets it through.
\<close>

theorem no_abort_counterexample:
  "normalizeData (instance_with JUndefined \<lparr>text = JStr [], align = JS ''left''\<rparr>) JNull
     = throw TypeError
   \<and> validate (instance_with JUndefined \<lparr>text = JStr [], align = JS ''left''\<rparr>) (JObj [])
     = throw TypeError
   \<and> validate (instance_with JUndefined \<lparr>text = JStr [], align = JS ''left''\<rparr>) JNull
     = throw TypeError"
  by (simp add: normalizeData_null validate_def userPreserveBlank_def instance_with_def
      config_of_simps read_prop_def or_js_def)

text \<open>
  Claim C7, amended. For every raw input other than \<open>null\<close> (\<open>undefined\<close>, a boolean,
  number, string or array, a record with or without \<open>text\<close>) and every configuration
  whose \<open>alignTypes\<close> is absent, an array or a string, \<open>_normalizeData\<close> returns.
  \<open>validate\<close> returns exactly when \<open>preserveBlank\<close> is on or \<open>savedData.text\<close> can
  be read and is a string; it has no guard for other saved data.
\<close>

theorem no_abort_amended:
  "(data0 \<noteq> JNull
      \<and> (\<not> truthy (alignTypes (this_config this)) \<or> has_includes (alignTypes (this_config this)))
      \<longrightarrow> returns (normalizeData this data0))
   \<and> (returns (validate this savedData) \<longleftrightarrow>
        userPreserveBlank this \<or> (\<exists>s. get savedData (str ''text'') = ret (JStr s)))"
  using normalizeData_returns [of data0 this] validate_returns_iff [of this savedData]
  by blast

text \<open>A record without \<open>text\<close> as raw data; saved data with the text \<open>a\<close>.\<close>

theorem no_abort_amended_witness:
  "JObj [] \<noteq> JNull
   \<and> \<not> truthy (alignTypes (this_config
        (instance_with JUndefined \<lparr>text = JStr [], align = JS ''left''\<rparr>)))
   \<and> returns (normalizeData (instance_with JUndefined \<lparr>text = JStr [], align = JS ''left''\<rparr>)
        (JObj []))
   \<and> get (JObj [(str ''text'', JS ''a'')]) (str ''text'') = ret (JS ''a'')
   \<and> returns (validate (instance_with JUndefined \<lparr>text = JStr [], align = JS ''left''\<rparr>)
        (JObj [(str ''text'', JS ''a'')]))"
proof -
  let ?i = "instance_with JUndefined \<lparr>text = JStr [], align = JS ''left''\<rparr>"
  have h: "\<not> truthy (alignTypes (this_config ?i))"
    by (simp add: instance_with_def config_of_simps read_prop_def or_js_def)
  have g: "get (JObj [(str ''text'', JS ''a'')]) (str ''text'') = ret (JS ''a'')"
    by simp
  from no_abort_amended [of "JObj []" ?i "JObj [(str ''text'', JS ''a'')]"] h g
  show ?thesis by blast
qed

section \<open>Validation\<close>

text \<open>
  Claim C8. When \<open>preserveBlank\<close> is on, \<open>validate\<close> returns true for every saved
  data. When it is off and the saved text is a string \<open>s\<close>, \<open>validate\<close> returns
  whether \<open>s.trim()\<close> is non-empty, that is, whether \<open>s\<close> has a code unit that is not
  white space. The result is only the boolean: the trimmed string is not stored.
\<close>

theorem validate_spec:
  "(userPreserveBlank this \<longrightarrow> validate this savedData = ret True)
   \<and> (\<not> userPreserveBlank this \<and> get savedData (str ''text'') = ret (JStr s) \<longrightarrow>
        validate this savedData = ret (trim s \<noteq> [])
        \<and> (trim s \<noteq> [] \<longleftrightarrow> (\<exists>c\<in>set s. \<not> isWhiteSpace c)))"
  using validate_preserve [of this savedData] validate_string [of this savedData s]
    trim_empty_iff [of s]
  by blast

text \<open>
  Scenarios 4 and 5 of the specification: \<open>preserveBlank\<close> off and the text of three
  spaces gives false; \<open>preserveBlank\<close> on and the empty text gives true.
\<close>

theorem validate_spec_witness:
  "\<not> userPreserveBlank (instance_with (JObj [(str ''preserveBlank'', JBool False)])
        \<lparr>text = JStr [], align = JS ''left''\<rparr>)
   \<and> validate (instance_with (JObj [(str ''preserveBlank'', JBool False)])
        \<lparr>text = JStr [], align = JS ''left''\<rparr>)
        (JObj [(str ''text'', JS ''   ''), (str ''align'', JS ''left'')]) = ret False
   \<and> userPreserveBlank (instance_with (JObj [(str ''preserveBlank'', JBool True)])
        \<lparr>text = JStr [], align = JS ''left''\<rparr>)
   \<and> validate (instance_with (JObj [(str ''preserveBlank'', JBool True)])
        \<lparr>text = JStr [], align = JS ''left''\<rparr>)
        (JObj [(str ''text'', JStr []), (str ''align'', JS ''left'')]) = ret True"
proof -
  let ?off = "instance_with (JObj [(str ''preserveBlank'', JBool False)])
        \<lparr>text = JStr [], align = JS ''left''\<rparr>"
  let ?on = "instance_with (JObj [(str ''preserveBlank'', JBool True)])
        \<lparr>text = JStr [], align = JS ''left''\<rparr>"
  have off: "\<not> userPreserveBlank ?off"
    by (simp add: userPreserveBlank_def instance_with_def config_of_simps read_prop_def or_js_def)
  have on: "userPreserveBlank ?on"
    by (simp add: userPreserveBlank_def instance_with_def config_of_simps read_prop_def or_js_def)
  have g: "get (JObj [(str ''text'', JS ''   ''), (str ''align'', JS ''left'')]) (str ''text'')
      = ret (JS ''   '')"
    by simp
  have blank: "trim (str ''   '') = []"
    by (simp add: trim_def str_def isWhiteSpace_def)
  have "validate ?off (JObj [(str ''text'', JS ''   ''), (str ''align'', JS ''left'')]) = ret False"
    using validate_spec [of ?off "JObj [(str ''text'', JS ''   ''), (str ''align'', JS ''left'')]"
        "str ''   ''"] off g blank
    by simp
  moreover have "validate ?on (JObj [(str ''text'', JStr []), (str ''align'', JS ''left'')])
      = ret True"
    using validate_spec [of ?on] on by blast
  ultimately show ?thesis using off on by simp
qed

section \<open>Saving and loading again\<close>

text \<open>
  Claim C9. Let the raw data \<open>d\<close> have an \<open>align\<close> that is a member of the allowed
  types. Then normalising \<open>d\<close>, saving the block that holds the result, and normalising
  what was saved all return, and the \<open>align\<close> is the one of \<open>d\<close> at each step.
  (\<open>blockContent\<close> is the element the host passes to \<open>save\<close>; its \<open>innerHTML\<close> can
  be read.)
\<close>

theorem align_round_trip:
  assumes "availableAlignTypes this = ret allowed"
    and "get d (str ''align'') = ret (JStr a)" and "a \<in> set allowed"
    and "get blockContent (str ''innerHTML'') = ret html"
  shows "\<exists>n1 s n2. normalizeData this d = ret n1
       \<and> save (this\<lparr>this_data := n1\<rparr>) blockContent = ret s
       \<and> normalizeData this (obj_of s) = ret n2
       \<and> align n1 = JStr a \<and> align s = JStr a \<and> align n2 = JStr a"
proof -
  have ne: "a \<noteq> []"
    using assms(1,3) available_subset ALIGN_TYPES_no_empty_string by blast
  have d_not_null: "d \<noteq> JNull"
    using assms(2) by auto
  then have rd: "read_prop d (str ''align'') = JStr a"
    using assms(2) by (cases d) (simp_all add: read_prop_def)
  define n1 where "n1 = \<lparr>text = or_js (read_prop d (str ''text'')) (JStr []), align = JStr a\<rparr>"
  have 1: "normalizeData this d = ret n1"
    by (simp add: normalizeData_unfold [OF d_not_null] rd ne n1_def)
  have "availableAlignTypes (this\<lparr>this_data := n1\<rparr>) = ret allowed"
    by (simp add: available_data_irrelevant assms(1))
  then have cur: "currentAlignType (this\<lparr>this_data := n1\<rparr>) = ret a"
    by (rule current_member) (simp_all add: n1_def assms(3))
  define s where "s = \<lparr>text = html, align = JStr a\<rparr>"
  have 2: "save (this\<lparr>this_data := n1\<rparr>) blockContent = ret s"
    by (simp add: save_def assms(4) cur s_def)
  have rs: "read_prop (obj_of s) (str ''align'') = JStr a"
    by (simp add: obj_of_def read_prop_def s_def str_def)
  define n2 where
    "n2 = \<lparr>text = or_js (read_prop (obj_of s) (str ''text'')) (JStr []), align = JStr a\<rparr>"
  have "obj_of s \<noteq> JNull"
    by (simp add: obj_of_def)
  then have 3: "normalizeData this (obj_of s) = ret n2"
    by (simp add: normalizeData_unfold rs ne n2_def)
  show ?thesis
    using 1 2 3 by (simp add: n1_def s_def n2_def)
qed

text \<open>With \<open>{alignTypes: ['center', 'right']}\<close> and \<open>{text: 'Hi', align: 'right'}\<close>.\<close>

theorem align_round_trip_witness:
  "availableAlignTypes (instance_with (JObj [(str ''alignTypes'', JArr [JS ''center'', JS ''right''])])
        \<lparr>text = JStr [], align = JS ''left''\<rparr>) = ret [str ''center'', str ''right'']
   \<and> get (JObj [(str ''text'', JS ''Hi''), (str ''align'', JS ''right'')]) (str ''align'')
        = ret (JS ''right'')
   \<and> get (JObj [(str ''innerHTML'', JS ''Hi'')]) (str ''innerHTML'') = ret (JS ''Hi'')
   \<and> (\<exists>n1 s n2.
        normalizeData (instance_with (JObj [(str ''alignTypes'', JArr [JS ''center'', JS ''right''])])
            \<lparr>text = JStr [], align = JS ''left''\<rparr>)
          (JObj [(str ''text'', JS ''Hi''), (str ''align'', JS ''right'')]) = ret n1
      \<and> save ((instance_with (JObj [(str ''alignTypes'', JArr [JS ''center'', JS ''right''])])
            \<lparr>text = JStr [], align = JS ''left''\<rparr>)\<lparr>this_data := n1\<rparr>)
          (JObj [(str ''innerHTML'', JS ''Hi'')]) = ret s
      \<and> normalizeData (instance_with (JObj [(str ''alignTypes'', JArr [JS ''center'', JS ''right''])])
            \<lparr>text = JStr [], align = JS ''left''\<rparr>) (obj_of s) = ret n2
      \<and> align n1 = JS ''right'' \<and> align s = JS ''right'' \<and> align n2 = JS ''right'')"
proof -
  let ?i = "instance_with (JObj [(str ''alignTypes'', JArr [JS ''center'', JS ''right''])])
        \<lparr>text = JStr [], align = JS ''left''\<rparr>"
  have av: "availableAlignTypes ?i = ret [str ''center'', str ''right'']"
    by (simp add: available_array [where xs = "[JS ''center'', JS ''right'']"]
        instance_with_def config_of_simps read_prop_def or_js_def ALIGN_TYPES_def str_def)
  have g1: "get (JObj [(str ''text'', JS ''Hi''), (str ''align'', JS ''right'')]) (str ''align'')
        = ret (JS ''right'')"
    by (simp add: str_def)
  have g2: "get (JObj [(str ''innerHTML'', JS ''Hi'')]) (str ''innerHTML'') = ret (JS ''Hi'')"
    by simp
  have m: "str ''right'' \<in> set [str ''center'', str ''right'']"
    by simp
  from align_round_trip [OF av g1 m g2] av g1 g2 show ?thesis
    by blast
qed

end
